theory Spec2Isabelle
  imports Complex_Main
begin

section \<open>Print-page preparation: geometry and print session\<close>

text \<open>
  A shallow embedding of \<^verbatim>\<open>chromium_src/chrome/renderer/printing/print_web_view_helper.cc\<close>.
  C++ \<^verbatim>\<open>int\<close> is modelled by \<open>int\<close>: the embedding describes the executions without
  signed overflow (which is undefined behaviour in C++). A \<^verbatim>\<open>double\<close> is modelled by
  \<open>real\<close>, that is, double arithmetic is read as exact arithmetic; the conversion
  \<^verbatim>\<open>static_cast<int>\<close> truncates towards zero. Functions that write through a pointer
  return the updated value. A failed \<^verbatim>\<open>CHECK\<close> and a division by zero are values of
  type \<open>failure\<close>.
\<close>

subsection \<open>Types declared outside the file\<close>

datatype failure = CHECK_failed | DivisionByZero | NullDereference

datatype platform = OS_MACOSX | OS_CHROMEOS | OS_ANDROID | OS_OTHER

text \<open>
  \<^verbatim>\<open>gfx::Size\<close> (ui/gfx) keeps two non-negative ints: its constructor and its setters
  replace a negative argument by 0. The fields are therefore naturals, and \<open>nat\<close>
  (which sends a negative int to 0) is the clamp. A C++ member \<^verbatim>\<open>name_\<close> is written
  \<open>name_'\<close> throughout, since an identifier cannot end with an underscore here.
\<close>

record Size =
  width_' :: nat
  height_' :: nat

definition gfx_Size :: "int \<Rightarrow> int \<Rightarrow> Size" where
  "gfx_Size w h = \<lparr>width_' = nat w, height_' = nat h\<rparr>"

definition width :: "Size \<Rightarrow> int" where
  "width s = int (width_' s)"

definition height :: "Size \<Rightarrow> int" where
  "height s = int (height_' s)"

definition SetSize :: "int \<Rightarrow> int \<Rightarrow> Size \<Rightarrow> Size" where
  "SetSize w h s = s\<lparr>width_' := nat w, height_' := nat h\<rparr>"

definition IsEmpty :: "Size \<Rightarrow> bool" where
  "IsEmpty s = (width s = 0 \<or> height s = 0)"

record Rect =
  rect_x :: int
  rect_y :: int
  rect_size :: Size

definition rect_width :: "Rect \<Rightarrow> int" where
  "rect_width r = width (rect_size r)"

definition rect_height :: "Rect \<Rightarrow> int" where
  "rect_height r = height (rect_size r)"

definition set_size :: "Size \<Rightarrow> Rect \<Rightarrow> Rect" where
  "set_size s r = r\<lparr>rect_size := s\<rparr>"

definition rect_IsEmpty :: "Rect \<Rightarrow> bool" where
  "rect_IsEmpty r = IsEmpty (rect_size r)"

text \<open>\<^verbatim>\<open>blink::WebSize\<close> and \<^verbatim>\<open>blink::WebRect\<close> are plain structs of ints.\<close>

datatype WebSize = WebSize (ws_width: int) (ws_height: int)

record WebRect =
  wr_x :: int
  wr_y :: int
  wr_width :: int
  wr_height :: int

datatype WebPrintScalingOption =
    WebPrintScalingOptionNone
  | WebPrintScalingOptionFitToPrintableArea
  | WebPrintScalingOptionSourceSize

record WebPrintParams =
  printContentArea :: WebRect
  printableArea :: WebRect
  paperSize :: WebSize
  printerDPI :: int
  printScalingOption :: WebPrintScalingOption

text \<open>
  \<^verbatim>\<open>PrintMsg_Print_Params\<close> (chrome/common/print_messages.h): the fields this file reads or
  writes. The record is extensible, so a statement about all of its fields also covers
  the fields the file never touches.
\<close>

record PrintMsg_Print_Params =
  page_size :: Size
  content_size :: Size
  printable_area :: Rect
  margin_top :: int
  margin_left :: int
  dpi :: real
  min_shrink :: real
  max_shrink :: real
  desired_dpi :: int
  document_cookie :: int
  selection_only :: bool
  print_scaling_option :: WebPrintScalingOption
  should_print_backgrounds :: bool

record PageSizeMargins =
  layout_content_width :: int
  layout_content_height :: int
  layout_margin_top :: int
  layout_margin_right :: int
  layout_margin_bottom :: int
  layout_margin_left :: int

datatype WebNode = NullNode | Node nat

fun isNull :: "WebNode \<Rightarrow> bool" where
  "isNull NullNode = True"
| "isNull (Node n) = False"

record WebPlugin =
  supportsPaginatedPrint :: bool

text \<open>
  The rendering engine is an external collaborator. A \<^verbatim>\<open>blink::WebFrame\<close> is modelled
  by what it answers: \<open>pageSizeAndMarginsInPixels\<close> takes the page index and the five
  in-out arguments (page size, then the top, right, bottom and left margins) and returns
  their new values; \<open>printBegin\<close> returns the page count; \<open>plugin\<close> is
  \<^verbatim>\<open>GetPlugin(frame)\<close>'s answer.
\<close>

record WebFrame =
  pageSizeAndMarginsInPixels ::
    "int \<Rightarrow> WebSize \<times> int \<times> int \<times> int \<times> int \<Rightarrow> WebSize \<times> int \<times> int \<times> int \<times> int"
  printBegin :: "WebPrintParams \<Rightarrow> WebNode \<Rightarrow> int"
  hasSelection :: bool
  plugin :: "WebPlugin option"
  isPrintScalingDisabledForPlugin :: "WebNode \<Rightarrow> bool"

subsection \<open>Units\<close>

text \<open>
  Modelled from the spec: printing/units.h is not under src/. The spec's fixed point
  resolution and fixed pixel resolution: 72 points and 96 pixels to the inch.
\<close>

definition kPointsPerInch :: int where
  "kPointsPerInch = 72"

definition kPixelsPerInch :: int where
  "kPixelsPerInch = 96"

text \<open>C++ integer division truncates towards zero.\<close>

definition cdiv :: "int \<Rightarrow> int \<Rightarrow> int" where
  "cdiv a b = sgn a * sgn b * (\<bar>a\<bar> div \<bar>b\<bar>)"

text \<open>
  Modelled from the spec: \<^verbatim>\<open>ConvertUnit\<close> (printing/units.h) is not under src/. The spec:
  \<^verbatim>\<open>value * targetUnitsPerInch / sourceUnitsPerInch\<close>, rounded to the nearest integer at
  each conversion. In integer arithmetic: half of the divisor is added to a non-negative
  dividend and subtracted from a negative one before the truncating division.
\<close>

definition ConvertUnit :: "int \<Rightarrow> int \<Rightarrow> int \<Rightarrow> int" where
  "ConvertUnit v old_unit new_unit =
     (if v \<ge> 0 then cdiv (v * new_unit + cdiv old_unit 2) old_unit
      else cdiv (v * new_unit - cdiv old_unit 2) old_unit)"

definition static_cast_int :: "real \<Rightarrow> int" where
  "static_cast_int x = (if x \<ge> 0 then \<lfloor>x\<rfloor> else \<lceil>x\<rceil>)"

subsection \<open>The anonymous namespace: geometry\<close>

definition kMinDpi :: real where
  "kMinDpi = 1"

definition GetDPI :: "platform \<Rightarrow> PrintMsg_Print_Params \<Rightarrow> int" where
  "GetDPI os print_params =
     (if os = OS_MACOSX then kPointsPerInch else static_cast_int (dpi print_params))"

definition PrintMsg_Print_Params_IsValid :: "PrintMsg_Print_Params \<Rightarrow> bool" where
  "PrintMsg_Print_Params_IsValid params =
     (\<not> IsEmpty (content_size params) \<and> \<not> IsEmpty (page_size params) \<and>
      \<not> rect_IsEmpty (printable_area params) \<and> document_cookie params \<noteq> 0 \<and>
      desired_dpi params \<noteq> 0 \<and> max_shrink params \<noteq> 0 \<and> min_shrink params \<noteq> 0 \<and>
      dpi params \<noteq> 0 \<and> margin_top params \<ge> 0 \<and> margin_left params \<ge> 0 \<and>
      dpi params > kMinDpi \<and> document_cookie params \<noteq> 0)"

text \<open>
  \<^verbatim>\<open>GetCssPrintParams\<close>. Every \<^verbatim>\<open>ConvertUnit(_, dpi, _)\<close> divides by \<open>dpi\<close>: a zero
  \<open>dpi\<close> is the failure \<open>DivisionByZero\<close>. The \<^verbatim>\<open>CHECK(frame != NULL)\<close> is the failure
  \<open>CHECK_failed\<close>. The recursive call passes no frame.
\<close>

function GetCssPrintParams ::
  "platform \<Rightarrow> WebFrame option \<Rightarrow> int \<Rightarrow> PrintMsg_Print_Params \<Rightarrow>
   failure + PrintMsg_Print_Params" where
  "GetCssPrintParams os frame page_index page_params =
     (let dpi = GetDPI os page_params in
      if dpi = 0 then Inl DivisionByZero
      else
        let page_size_in_pixels =
              WebSize (ConvertUnit (width (page_size page_params)) dpi kPixelsPerInch)
                      (ConvertUnit (height (page_size page_params)) dpi kPixelsPerInch);
            margin_top_in_pixels = ConvertUnit (margin_top page_params) dpi kPixelsPerInch;
            margin_right_in_pixels =
              ConvertUnit (width (page_size page_params) -
                           width (content_size page_params) - margin_left page_params)
                          dpi kPixelsPerInch;
            margin_bottom_in_pixels =
              ConvertUnit (height (page_size page_params) -
                           height (content_size page_params) - margin_top page_params)
                          dpi kPixelsPerInch;
            margin_left_in_pixels = ConvertUnit (margin_left page_params) dpi kPixelsPerInch;
            original_page_size_in_pixels = page_size_in_pixels;
            args = (page_size_in_pixels, margin_top_in_pixels, margin_right_in_pixels,
                    margin_bottom_in_pixels, margin_left_in_pixels);
            res = (case frame of None \<Rightarrow> args
                   | Some f \<Rightarrow> pageSizeAndMarginsInPixels f page_index args);
            page_size_in_pixels = fst res;
            margin_top_in_pixels = fst (snd res);
            margin_right_in_pixels = fst (snd (snd res));
            margin_bottom_in_pixels = fst (snd (snd (snd res)));
            margin_left_in_pixels = snd (snd (snd (snd res)));
            new_content_width =
              ws_width page_size_in_pixels - margin_left_in_pixels - margin_right_in_pixels;
            new_content_height =
              ws_height page_size_in_pixels - margin_top_in_pixels - margin_bottom_in_pixels
        in
          if new_content_width < 1 \<or> new_content_height < 1 then
            (case frame of
               None \<Rightarrow> Inl CHECK_failed
             | Some f \<Rightarrow> GetCssPrintParams os None page_index page_params)
          else
            Inr (page_params
              \<lparr>content_size :=
                 gfx_Size (ConvertUnit new_content_width kPixelsPerInch dpi)
                          (ConvertUnit new_content_height kPixelsPerInch dpi),
               page_size :=
                 (if original_page_size_in_pixels \<noteq> page_size_in_pixels then
                    gfx_Size (ConvertUnit (ws_width page_size_in_pixels) kPixelsPerInch dpi)
                             (ConvertUnit (ws_height page_size_in_pixels) kPixelsPerInch dpi)
                  else page_size page_params),
               margin_top := ConvertUnit margin_top_in_pixels kPixelsPerInch dpi,
               margin_left := ConvertUnit margin_left_in_pixels kPixelsPerInch dpi\<rparr>))"
  by pat_completeness auto
termination
  by (relation "measure (\<lambda>(os, frame, page_index, page_params).
                   case frame of None \<Rightarrow> 0 | Some f \<Rightarrow> 1)") auto

declare GetCssPrintParams.simps [simp del]

text \<open>
  \<^verbatim>\<open>FitPrintParamsToPage\<close> returns the scale factor and the updated \<^verbatim>\<open>*params_to_fit\<close>.
  The two ratios divide by the CSS page width and height: where one of them is zero the
  double is infinite or not a number, and the model stops with \<open>DivisionByZero\<close>.
\<close>

definition FitPrintParamsToPage ::
  "PrintMsg_Print_Params \<Rightarrow> PrintMsg_Print_Params \<Rightarrow>
   failure + (real \<times> PrintMsg_Print_Params)" where
  "FitPrintParamsToPage page_params params_to_fit =
     (let content_width = real_of_int (width (content_size params_to_fit));
          content_height = real_of_int (height (content_size params_to_fit));
          default_page_size_height = height (page_size page_params);
          default_page_size_width = width (page_size page_params);
          css_page_size_height = height (page_size params_to_fit);
          css_page_size_width = width (page_size params_to_fit);
          scale_factor = (1 :: real)
      in
        if page_size page_params = page_size params_to_fit then
          Inr (scale_factor, params_to_fit)
        else
          let shrink = (default_page_size_width < css_page_size_width \<or>
                        default_page_size_height < css_page_size_height)
          in
            if shrink \<and> (css_page_size_width = 0 \<or> css_page_size_height = 0) then
              Inl DivisionByZero
            else
              let fitted =
                    (if shrink then
                       let ratio_width =
                             real_of_int default_page_size_width /
                             real_of_int css_page_size_width;
                           ratio_height =
                             real_of_int default_page_size_height /
                             real_of_int css_page_size_height;
                           scale_factor =
                             (if ratio_width < ratio_height then ratio_width
                              else ratio_height)
                       in (scale_factor, content_width * scale_factor,
                           content_height * scale_factor)
                     else (scale_factor, content_width, content_height));
                  scale_factor = fst fitted;
                  content_width = fst (snd fitted);
                  content_height = snd (snd fitted)
              in
                Inr (scale_factor,
                  params_to_fit
                    \<lparr>margin_top :=
                       static_cast_int
                         ((real_of_int default_page_size_height -
                           real_of_int css_page_size_height * scale_factor) / 2 +
                          real_of_int (margin_top params_to_fit) * scale_factor),
                     margin_left :=
                       static_cast_int
                         ((real_of_int default_page_size_width -
                           real_of_int css_page_size_width * scale_factor) / 2 +
                          real_of_int (margin_left params_to_fit) * scale_factor),
                     content_size :=
                       gfx_Size (static_cast_int content_width)
                                (static_cast_int content_height),
                     page_size := page_size page_params\<rparr>))"

definition CalculatePageLayoutFromPrintParams ::
  "platform \<Rightarrow> PrintMsg_Print_Params \<Rightarrow> failure + PageSizeMargins" where
  "CalculatePageLayoutFromPrintParams os params =
     (let dpi = GetDPI os params;
          content_width = width (content_size params);
          content_height = height (content_size params);
          margin_bottom = height (page_size params) - content_height - margin_top params;
          margin_right = width (page_size params) - content_width - margin_left params
      in
        if dpi = 0 then Inl DivisionByZero
        else
          Inr \<lparr>layout_content_width = ConvertUnit content_width dpi kPointsPerInch,
               layout_content_height = ConvertUnit content_height dpi kPointsPerInch,
               layout_margin_top = ConvertUnit (margin_top params) dpi kPointsPerInch,
               layout_margin_right = ConvertUnit margin_right dpi kPointsPerInch,
               layout_margin_bottom = ConvertUnit margin_bottom dpi kPointsPerInch,
               layout_margin_left = ConvertUnit (margin_left params) dpi kPointsPerInch\<rparr>)"

definition EnsureOrientationMatches ::
  "PrintMsg_Print_Params \<Rightarrow> PrintMsg_Print_Params \<Rightarrow> PrintMsg_Print_Params" where
  "EnsureOrientationMatches css_params page_params =
     (if (width (page_size page_params) > height (page_size page_params)) =
         (width (page_size css_params) > height (page_size css_params))
      then page_params
      else
        page_params
          \<lparr>page_size :=
             SetSize (height (page_size page_params)) (width (page_size page_params))
                     (page_size page_params),
           content_size :=
             SetSize (height (content_size page_params)) (width (content_size page_params))
                     (content_size page_params),
           printable_area :=
             set_size (gfx_Size (rect_height (printable_area page_params))
                                (rect_width (printable_area page_params)))
                      (printable_area page_params)\<rparr>)"

definition ComputeWebKitPrintParamsInDesiredDpi ::
  "platform \<Rightarrow> PrintMsg_Print_Params \<Rightarrow> WebPrintParams \<Rightarrow> failure + WebPrintParams" where
  "ComputeWebKitPrintParamsInDesiredDpi os print_params webkit_print_params =
     (let dpi = GetDPI os print_params in
      if dpi = 0 then Inl DivisionByZero
      else
        Inr (webkit_print_params
          \<lparr>printerDPI := dpi,
           printScalingOption := print_scaling_option print_params,
           printContentArea :=
             (printContentArea webkit_print_params)
               \<lparr>wr_width := ConvertUnit (width (content_size print_params)) dpi
                               (desired_dpi print_params),
                wr_height := ConvertUnit (height (content_size print_params)) dpi
                               (desired_dpi print_params)\<rparr>,
           printableArea :=
             \<lparr>wr_x = ConvertUnit (rect_x (printable_area print_params)) dpi
                        (desired_dpi print_params),
              wr_y = ConvertUnit (rect_y (printable_area print_params)) dpi
                        (desired_dpi print_params),
              wr_width = ConvertUnit (rect_width (printable_area print_params)) dpi
                        (desired_dpi print_params),
              wr_height = ConvertUnit (rect_height (printable_area print_params)) dpi
                        (desired_dpi print_params)\<rparr>,
           paperSize :=
             WebSize (ConvertUnit (width (page_size print_params)) dpi
                        (desired_dpi print_params))
                     (ConvertUnit (height (page_size print_params)) dpi
                        (desired_dpi print_params))\<rparr>))"

definition PrintingNodeOrPdfFrame :: "WebFrame \<Rightarrow> WebNode \<Rightarrow> bool" where
  "PrintingNodeOrPdfFrame frame node =
     (if \<not> isNull node then True
      else (case plugin frame of None \<Rightarrow> False | Some p \<Rightarrow> supportsPaginatedPrint p))"

datatype MarginType = DEFAULT_MARGINS | NO_MARGINS | PRINTABLE_AREA_MARGINS | CUSTOM_MARGINS

definition GetMarginsForPdf :: "WebFrame \<Rightarrow> WebNode \<Rightarrow> MarginType" where
  "GetMarginsForPdf frame node =
     (if isPrintScalingDisabledForPlugin frame node then NO_MARGINS
      else PRINTABLE_AREA_MARGINS)"

text \<open>
  \<^verbatim>\<open>CalculatePrintParamsForCss\<close> returns the parameters and what it writes to
  \<^verbatim>\<open>*scale_factor\<close>: \<open>Some factor\<close> when \<^verbatim>\<open>fit_to_page\<close> is set, \<open>None\<close> when the
  function leaves the caller's variable alone.
\<close>

definition CalculatePrintParamsForCss ::
  "platform \<Rightarrow> WebFrame option \<Rightarrow> int \<Rightarrow> PrintMsg_Print_Params \<Rightarrow> bool \<Rightarrow> bool \<Rightarrow>
   failure + (PrintMsg_Print_Params \<times> real option)" where
  "CalculatePrintParamsForCss os frame page_index page_params ignore_css_margins fit_to_page =
     (case GetCssPrintParams os frame page_index page_params of
        Inl e \<Rightarrow> Inl e
      | Inr css_params \<Rightarrow>
          let params = EnsureOrientationMatches css_params page_params in
          if ignore_css_margins \<and> fit_to_page then Inr (params, None)
          else
            let result_params = css_params;
                result_params =
                  (if ignore_css_margins then
                     let result_params =
                           result_params\<lparr>margin_top := margin_top params,
                                         margin_left := margin_left params\<rparr>;
                         default_margin_right =
                           width (page_size params) - width (content_size params) -
                           margin_left params;
                         default_margin_bottom =
                           height (page_size params) - height (content_size params) -
                           margin_top params
                     in result_params
                          \<lparr>content_size :=
                             gfx_Size (width (page_size result_params) -
                                       margin_left result_params - default_margin_right)
                                      (height (page_size result_params) -
                                       margin_top result_params - default_margin_bottom)\<rparr>
                   else result_params)
            in
              if fit_to_page then
                (case FitPrintParamsToPage params result_params of
                   Inl e \<Rightarrow> Inl e
                 | Inr (factor, result_params) \<Rightarrow> Inr (result_params, Some factor))
              else Inr (result_params, None))"

definition ComputePageLayoutInPointsForCss ::
  "platform \<Rightarrow> WebFrame option \<Rightarrow> int \<Rightarrow> PrintMsg_Print_Params \<Rightarrow> bool \<Rightarrow>
   failure + (real option \<times> PageSizeMargins)" where
  "ComputePageLayoutInPointsForCss os frame page_index page_params ignore_css_margins =
     (case CalculatePrintParamsForCss os frame page_index page_params ignore_css_margins
             (print_scaling_option page_params = WebPrintScalingOptionFitToPrintableArea) of
        Inl e \<Rightarrow> Inl e
      | Inr (params, scale_factor) \<Rightarrow>
          (case CalculatePageLayoutFromPrintParams os params of
             Inl e \<Rightarrow> Inl e
           | Inr page_layout_in_points \<Rightarrow> Inr (scale_factor, page_layout_in_points)))"

subsection \<open>PrepareFrameAndViewForPrint\<close>

text \<open>
  The members of \<^verbatim>\<open>PrepareFrameAndViewForPrint\<close> that decide what the helper does. The
  view's size, scroll offset and settings live in the rendering engine; resizing and
  restoring them leaves this record alone. \<open>frame_'\<close> is the \<^verbatim>\<open>FrameReference\<close>: the
  frame it returns, \<open>None\<close> after \<^verbatim>\<open>Reset(NULL)\<close>; the frame is taken to stay attached to
  its view. \<^verbatim>\<open>on_ready_\<close> is always the helper's \<^verbatim>\<open>OnFramePreparedForPrintPages\<close>.
\<close>

record PrepareFrameAndViewForPrint =
  frame_' :: "WebFrame option"
  node_to_print_' :: WebNode
  owns_web_view_' :: bool
  web_print_params_' :: WebPrintParams
  expected_pages_count_' :: int
  should_print_backgrounds_' :: bool
  should_print_selection_only_' :: bool
  is_printing_started_' :: bool

text \<open>A default-constructed \<^verbatim>\<open>blink::WebPrintParams\<close>.\<close>

definition WebPrintParams_default :: WebPrintParams where
  "WebPrintParams_default =
     \<lparr>printContentArea = \<lparr>wr_x = 0, wr_y = 0, wr_width = 0, wr_height = 0\<rparr>,
      printableArea = \<lparr>wr_x = 0, wr_y = 0, wr_width = 0, wr_height = 0\<rparr>,
      paperSize = WebSize 0 0,
      printerDPI = 72,
      printScalingOption = WebPrintScalingOptionFitToPrintableArea\<rparr>"

text \<open>The constructor. The provisional \<^verbatim>\<open>printBegin\<close> and \<^verbatim>\<open>printEnd\<close> act on the engine only.\<close>

definition PrepareFrameAndViewForPrint_new ::
  "platform \<Rightarrow> PrintMsg_Print_Params \<Rightarrow> WebFrame \<Rightarrow> WebNode \<Rightarrow> bool \<Rightarrow>
   failure + PrepareFrameAndViewForPrint" where
  "PrepareFrameAndViewForPrint_new os params frame node ignore_css_margins =
     (let this = \<lparr>frame_' = Some frame,
                   node_to_print_' = node,
                   owns_web_view_' = False,
                   web_print_params_' = WebPrintParams_default,
                   expected_pages_count_' = 0,
                   should_print_backgrounds_' = should_print_backgrounds params,
                   should_print_selection_only_' = selection_only params,
                   is_printing_started_' = False\<rparr>;
          print_params = params
      in
        if \<not> should_print_selection_only_' this \<or>
           \<not> PrintingNodeOrPdfFrame frame (node_to_print_' this) then
          (let fit_to_page =
                 (ignore_css_margins \<and>
                  print_scaling_option print_params =
                    WebPrintScalingOptionFitToPrintableArea)
           in
             case ComputeWebKitPrintParamsInDesiredDpi os params (web_print_params_' this) of
               Inl e \<Rightarrow> Inl e
             | Inr w \<Rightarrow>
                 (case CalculatePrintParamsForCss os (Some frame) 0 print_params
                         ignore_css_margins fit_to_page of
                    Inl e \<Rightarrow> Inl e
                  | Inr (print_params, scale_factor) \<Rightarrow>
                      (case ComputeWebKitPrintParamsInDesiredDpi os print_params w of
                         Inl e \<Rightarrow> Inl e
                       | Inr w \<Rightarrow> Inr (this\<lparr>web_print_params_' := w\<rparr>))))
        else
          (case ComputeWebKitPrintParamsInDesiredDpi os print_params
                  (web_print_params_' this) of
             Inl e \<Rightarrow> Inl e
           | Inr w \<Rightarrow> Inr (this\<lparr>web_print_params_' := w\<rparr>)))"

definition GetExpectedPageCount :: "PrepareFrameAndViewForPrint \<Rightarrow> int" where
  "GetExpectedPageCount this = expected_pages_count_' this"

text \<open>
  \<^verbatim>\<open>StartPrinting\<close>: \<^verbatim>\<open>ResizeForPrinting\<close> and the background setting act on the engine;
  \<^verbatim>\<open>frame()->printBegin\<close> dereferences the frame.
\<close>

definition StartPrinting ::
  "PrepareFrameAndViewForPrint \<Rightarrow> failure + PrepareFrameAndViewForPrint" where
  "StartPrinting this =
     (case frame_' this of
        None \<Rightarrow> Inl NullDereference
      | Some f \<Rightarrow>
          Inr (this\<lparr>expected_pages_count_' :=
                      printBegin f (web_print_params_' this) (node_to_print_' this),
                    is_printing_started_' := True\<rparr>))"

text \<open>
  \<^verbatim>\<open>CopySelection\<close> moves the reference to the main frame of the web view it creates
  (the argument \<open>selection_frame\<close>) and resets the node.
\<close>

definition CopySelection ::
  "WebFrame \<Rightarrow> PrepareFrameAndViewForPrint \<Rightarrow> failure + PrepareFrameAndViewForPrint" where
  "CopySelection selection_frame this =
     (case frame_' this of
        None \<Rightarrow> Inl NullDereference
      | Some f \<Rightarrow>
          Inr (this\<lparr>owns_web_view_' := True,
                    frame_' := Some selection_frame,
                    node_to_print_' := NullNode\<rparr>))"

definition FinishPrinting :: "PrepareFrameAndViewForPrint \<Rightarrow> PrepareFrameAndViewForPrint" where
  "FinishPrinting this =
     (let this =
            (case frame_' this of
               None \<Rightarrow> this
             | Some f \<Rightarrow>
                 (let this = (if is_printing_started_' this
                              then this\<lparr>is_printing_started_' := False\<rparr> else this)
                  in if owns_web_view_' this then this\<lparr>owns_web_view_' := False\<rparr>
                     else this))
      in this\<lparr>frame_' := None\<rparr>)"

subsection \<open>PrintWebViewHelper\<close>

datatype PrintingResult = OK | FAIL_PRINT_INIT | FAIL_PRINT

record PrintMsg_PrintPages_Params =
  params :: PrintMsg_Print_Params
  pages :: "int list"

record PrintHostMsg_ScriptedPrint_Params =
  cookie :: int
  has_selection :: bool
  expected_pages_count :: int
  margin_type :: MarginType

text \<open>
  What the helper does to the outside, oldest first: the messages it sends to the host
  (without the routing id), the pages it hands to \<^verbatim>\<open>PrintPageInternal\<close>, and each call of
  \<^verbatim>\<open>DidFinishPrinting\<close> with its result.
\<close>

datatype event =
    PrintHostMsg_GetDefaultPrintSettings
  | PrintHostMsg_ScriptedPrint PrintHostMsg_ScriptedPrint_Params
  | PrintHostMsg_DidGetPrintedPagesCount int int
  | PrintHostMsg_PrintingFailed int
  | PrintHostMsg_ShowInvalidPrinterSettingsError
  | PrintPageInternal int
  | DidFinishPrinting_called PrintingResult

record PrintWebViewHelper =
  prep_frame_view_' :: "PrepareFrameAndViewForPrint option"
  print_pages_params_' :: "PrintMsg_PrintPages_Params option"
  reset_prep_frame_view_' :: bool
  is_print_ready_metafile_sent_' :: bool
  ignore_css_margins_' :: bool
  is_scripted_printing_blocked_' :: bool
  notify_browser_of_print_failure_' :: bool
  print_for_preview_' :: bool
  print_node_in_progress_' :: bool
  is_loading_' :: bool
  is_scripted_preview_delayed_' :: bool
  events :: "event list"

text \<open>
  The collaborators' answers: the host's reply to \<^verbatim>\<open>PrintHostMsg_GetDefaultPrintSettings\<close>
  (what \<^verbatim>\<open>settings.params\<close> holds after the send) and to \<^verbatim>\<open>PrintHostMsg_ScriptedPrint\<close>
  (the reply is taken as one step: no other message is handled while the helper waits),
  the main frame of the web view created for a selection, and \<^verbatim>\<open>PrintPagesNative\<close> of
  the platforms whose definition is in another file.
\<close>

record environment =
  default_print_settings :: PrintMsg_Print_Params
  scripted_print :: "PrintHostMsg_ScriptedPrint_Params \<Rightarrow> PrintMsg_PrintPages_Params"
  selection_web_frame :: WebFrame
  platform_PrintPagesNative ::
    "WebFrame option \<Rightarrow> int \<Rightarrow> PrintWebViewHelper \<Rightarrow> bool \<times> PrintWebViewHelper"

definition Send :: "event \<Rightarrow> PrintWebViewHelper \<Rightarrow> PrintWebViewHelper" where
  "Send msg this = this\<lparr>events := events this @ [msg]\<rparr>"

definition PrintWebViewHelper_new :: PrintWebViewHelper where
  "PrintWebViewHelper_new =
     \<lparr>prep_frame_view_' = None,
      print_pages_params_' = None,
      reset_prep_frame_view_' = False,
      is_print_ready_metafile_sent_' = False,
      ignore_css_margins_' = False,
      is_scripted_printing_blocked_' = False,
      notify_browser_of_print_failure_' = True,
      print_for_preview_' = False,
      print_node_in_progress_' = False,
      is_loading_' = False,
      is_scripted_preview_delayed_' = False,
      events = []\<rparr>"

definition SetPrintPagesParams ::
  "PrintMsg_PrintPages_Params \<Rightarrow> PrintWebViewHelper \<Rightarrow> PrintWebViewHelper" where
  "SetPrintPagesParams settings this = this\<lparr>print_pages_params_' := Some settings\<rparr>"

text \<open>
  \<^verbatim>\<open>DidFinishPrinting\<close>. The \<^verbatim>\<open>DCHECK\<close> of the case \<^verbatim>\<open>FAIL_PRINT_INIT\<close> is compiled out
  of a release build. Resetting \<^verbatim>\<open>prep_frame_view_\<close> destroys the object.
\<close>

definition DidFinishPrinting :: "PrintingResult \<Rightarrow> PrintWebViewHelper \<Rightarrow> PrintWebViewHelper" where
  "DidFinishPrinting result this =
     (let this = this\<lparr>events := events this @ [DidFinishPrinting_called result]\<rparr>;
          this =
            (case result of
               OK \<Rightarrow> this
             | FAIL_PRINT_INIT \<Rightarrow> this
             | FAIL_PRINT \<Rightarrow>
                 (case print_pages_params_' this of
                    None \<Rightarrow> this
                  | Some p \<Rightarrow>
                      if notify_browser_of_print_failure_' this then
                        Send (PrintHostMsg_PrintingFailed (document_cookie (params p))) this
                      else this))
      in this\<lparr>prep_frame_view_' := None,
               print_pages_params_' := None,
               notify_browser_of_print_failure_' := True\<rparr>)"

definition OnPrintingDone :: "bool \<Rightarrow> PrintWebViewHelper \<Rightarrow> PrintWebViewHelper" where
  "OnPrintingDone success this =
     DidFinishPrinting (if success then OK else FAIL_PRINT)
       (this\<lparr>notify_browser_of_print_failure_' := False\<rparr>)"

definition FinishFramePrinting :: "PrintWebViewHelper \<Rightarrow> PrintWebViewHelper" where
  "FinishFramePrinting this = this\<lparr>prep_frame_view_' := None\<rparr>"

text \<open>
  \<^verbatim>\<open>PrintPagesNative\<close> as this file defines it (under \<^verbatim>\<open>OS_MACOSX\<close>). The second loop
  leaves at the first requested page that is not below \<open>page_count\<close>.
\<close>

fun PrintPagesNative_requested ::
  "int list \<Rightarrow> int \<Rightarrow> PrintWebViewHelper \<Rightarrow> PrintWebViewHelper" where
  "PrintPagesNative_requested [] page_count this = this"
| "PrintPagesNative_requested (p # ps) page_count this =
     (if p \<ge> page_count then this
      else PrintPagesNative_requested ps page_count (Send (PrintPageInternal p) this))"

fun PrintPagesNative_all :: "int list \<Rightarrow> PrintWebViewHelper \<Rightarrow> PrintWebViewHelper" where
  "PrintPagesNative_all [] this = this"
| "PrintPagesNative_all (i # is) this =
     PrintPagesNative_all is (Send (PrintPageInternal i) this)"

definition PrintPagesNative ::
  "platform \<Rightarrow> environment \<Rightarrow> WebFrame option \<Rightarrow> int \<Rightarrow> PrintWebViewHelper \<Rightarrow>
   failure + (bool \<times> PrintWebViewHelper)" where
  "PrintPagesNative os env frame page_count this =
     (if os = OS_MACOSX then
        (case print_pages_params_' this of
           None \<Rightarrow> Inl NullDereference
         | Some p \<Rightarrow>
             if pages p = [] then
               Inr (True, PrintPagesNative_all (map int [0..<nat page_count]) this)
             else
               Inr (True, PrintPagesNative_requested (pages p) page_count this))
      else Inr (platform_PrintPagesNative env frame page_count this))"

definition PrintPages ::
  "platform \<Rightarrow> environment \<Rightarrow> PrintWebViewHelper \<Rightarrow> failure + PrintWebViewHelper" where
  "PrintPages os env this =
     (case prep_frame_view_' this of
        None \<Rightarrow> Inr this
      | Some prep \<Rightarrow>
          (case StartPrinting prep of
             Inl e \<Rightarrow> Inl e
           | Inr prep \<Rightarrow>
               (let this = this\<lparr>prep_frame_view_' := Some prep\<rparr>;
                    page_count = GetExpectedPageCount prep
                in
                  if page_count = 0 then Inr (DidFinishPrinting FAIL_PRINT this)
                  else
                    (case print_pages_params_' this of
                       None \<Rightarrow> Inl NullDereference
                     | Some p \<Rightarrow>
                         (let this =
                                (if os \<noteq> OS_CHROMEOS \<and> os \<noteq> OS_ANDROID then
                                   Send (PrintHostMsg_DidGetPrintedPagesCount
                                           (document_cookie (params p)) page_count) this
                                 else this)
                          in
                            case PrintPagesNative os env (frame_' prep) page_count this of
                              Inl e \<Rightarrow> Inl e
                            | Inr (ok, this) \<Rightarrow>
                                if \<not> ok then Inr (DidFinishPrinting FAIL_PRINT this)
                                else Inr this)))))"

definition OnFramePreparedForPrintPages ::
  "platform \<Rightarrow> environment \<Rightarrow> PrintWebViewHelper \<Rightarrow> failure + PrintWebViewHelper" where
  "OnFramePreparedForPrintPages os env this =
     (case PrintPages os env this of
        Inl e \<Rightarrow> Inl e
      | Inr this \<Rightarrow> Inr (FinishFramePrinting this))"

definition InitPrintSettings ::
  "environment \<Rightarrow> bool \<Rightarrow> PrintWebViewHelper \<Rightarrow> bool \<times> PrintWebViewHelper" where
  "InitPrintSettings env fit_to_paper_size this =
     (let this = Send PrintHostMsg_GetDefaultPrintSettings this;
          settings = \<lparr>params = default_print_settings env, pages = []\<rparr>;
          result = (if \<not> PrintMsg_Print_Params_IsValid (params settings) then False else True);
          this = this\<lparr>ignore_css_margins_' := False\<rparr>;
          settings = settings\<lparr>pages := []\<rparr>;
          settings = settings\<lparr>params := (params settings)
                       \<lparr>print_scaling_option := WebPrintScalingOptionSourceSize\<rparr>\<rparr>;
          settings =
            (if fit_to_paper_size then
               settings\<lparr>params := (params settings)
                 \<lparr>print_scaling_option := WebPrintScalingOptionFitToPrintableArea\<rparr>\<rparr>
             else settings)
      in (result, SetPrintPagesParams settings this))"

text \<open>
  \<^verbatim>\<open>CalculateNumberOfPages\<close> takes and returns \<^verbatim>\<open>*number_of_pages\<close>. The local
  \<^verbatim>\<open>prepare\<close> is destroyed on return.
\<close>

definition CalculateNumberOfPages ::
  "platform \<Rightarrow> environment \<Rightarrow> WebFrame \<Rightarrow> WebNode \<Rightarrow> int \<Rightarrow> PrintWebViewHelper \<Rightarrow>
   failure + (bool \<times> int \<times> PrintWebViewHelper)" where
  "CalculateNumberOfPages os env frame node number_of_pages this =
     (let fit_to_paper_size = \<not> PrintingNodeOrPdfFrame frame node;
          init = InitPrintSettings env fit_to_paper_size this;
          this = snd init
      in
        if \<not> fst init then
          Inr (False, number_of_pages,
               Send PrintHostMsg_ShowInvalidPrinterSettingsError
                 (this\<lparr>notify_browser_of_print_failure_' := False\<rparr>))
        else
          (case print_pages_params_' this of
             None \<Rightarrow> Inl NullDereference
           | Some p \<Rightarrow>
               (case PrepareFrameAndViewForPrint_new os (params p) frame node
                       (ignore_css_margins_' this) of
                  Inl e \<Rightarrow> Inl e
                | Inr prepare \<Rightarrow>
                    (case StartPrinting prepare of
                       Inl e \<Rightarrow> Inl e
                     | Inr prepare \<Rightarrow> Inr (True, GetExpectedPageCount prepare, this)))))"

definition GetPrintSettingsFromUser ::
  "environment \<Rightarrow> WebFrame option \<Rightarrow> WebNode \<Rightarrow> int \<Rightarrow> PrintWebViewHelper \<Rightarrow>
   failure + (bool \<times> PrintWebViewHelper)" where
  "GetPrintSettingsFromUser env frame node expected_pages_count_arg this =
     (case print_pages_params_' this of
        None \<Rightarrow> Inl NullDereference
      | Some p \<Rightarrow>
          (case frame of
             None \<Rightarrow> Inl NullDereference
           | Some f \<Rightarrow>
               (let request =
                      \<lparr>cookie = document_cookie (params p),
                       has_selection = hasSelection f,
                       expected_pages_count = expected_pages_count_arg,
                       margin_type =
                         (if PrintingNodeOrPdfFrame f node then GetMarginsForPdf f node
                          else DEFAULT_MARGINS)\<rparr>;
                    scaling_option = print_scaling_option (params p);
                    this = this\<lparr>print_pages_params_' := None\<rparr>;
                    this = Send (PrintHostMsg_ScriptedPrint request) this;
                    print_settings = scripted_print env request;
                    print_settings =
                      print_settings\<lparr>params := (params print_settings)
                        \<lparr>print_scaling_option := scaling_option\<rparr>\<rparr>;
                    this = SetPrintPagesParams print_settings this
                in Inr (dpi (params print_settings) \<noteq> 0 \<and>
                        document_cookie (params print_settings) \<noteq> 0, this))))"

text \<open>
  \<^verbatim>\<open>CopySelectionIfNeeded\<close>, with \<^verbatim>\<open>on_ready\<close> the helper's
  \<^verbatim>\<open>OnFramePreparedForPrintPages\<close>. For a selection the callback runs later, from the
  message loop, once the copy has loaded: the helper waits with \<open>prep_frame_view_'\<close> set.
\<close>

definition CopySelectionIfNeeded ::
  "platform \<Rightarrow> environment \<Rightarrow> PrintWebViewHelper \<Rightarrow> failure + PrintWebViewHelper" where
  "CopySelectionIfNeeded os env this =
     (case prep_frame_view_' this of
        None \<Rightarrow> Inl NullDereference
      | Some prep \<Rightarrow>
          if should_print_selection_only_' prep then
            (case CopySelection (selection_web_frame env) prep of
               Inl e \<Rightarrow> Inl e
             | Inr prep \<Rightarrow> Inr (this\<lparr>prep_frame_view_' := Some prep\<rparr>))
          else OnFramePreparedForPrintPages os env this)"

definition RenderPagesForPrint ::
  "platform \<Rightarrow> environment \<Rightarrow> WebFrame option \<Rightarrow> WebNode \<Rightarrow> PrintWebViewHelper \<Rightarrow>
   failure + (bool \<times> PrintWebViewHelper)" where
  "RenderPagesForPrint os env frame node this =
     (case frame of
        None \<Rightarrow> Inr (False, this)
      | Some f \<Rightarrow>
          if prep_frame_view_' this \<noteq> None then Inr (False, this)
          else
            (case print_pages_params_' this of
               None \<Rightarrow> Inl NullDereference
             | Some p \<Rightarrow>
                 (case PrepareFrameAndViewForPrint_new os (params p) f node
                         (ignore_css_margins_' this) of
                    Inl e \<Rightarrow> Inl e
                  | Inr prep \<Rightarrow>
                      (case CopySelectionIfNeeded os env
                              (this\<lparr>prep_frame_view_' := Some prep\<rparr>) of
                         Inl e \<Rightarrow> Inl e
                       | Inr this \<Rightarrow> Inr (True, this)))))"

text \<open>
  \<^verbatim>\<open>Print\<close>. \<^verbatim>\<open>frame_ref.GetFrame()\<close> is the frame itself (it stays attached to its
  view).
\<close>

definition Print ::
  "platform \<Rightarrow> environment \<Rightarrow> WebFrame \<Rightarrow> WebNode \<Rightarrow> bool \<Rightarrow> bool \<Rightarrow> PrintWebViewHelper \<Rightarrow>
   failure + PrintWebViewHelper" where
  "Print os env frame node silent print_background this =
     (if prep_frame_view_' this \<noteq> None then Inr this
      else
        (let frame_ref = Some frame;
             expected_page_count = 0
         in
           case CalculateNumberOfPages os env frame node expected_page_count this of
             Inl e \<Rightarrow> Inl e
           | Inr (ok, expected_page_count, this) \<Rightarrow>
               if \<not> ok then Inr (DidFinishPrinting FAIL_PRINT_INIT this)
               else if expected_page_count = 0 then Inr (DidFinishPrinting FAIL_PRINT this)
               else
                 (case (if silent then Inr (True, this)
                        else GetPrintSettingsFromUser env frame_ref node
                               expected_page_count this) of
                    Inl e \<Rightarrow> Inl e
                  | Inr (got_settings, this) \<Rightarrow>
                      if \<not> silent \<and> \<not> got_settings then Inr (DidFinishPrinting OK this)
                      else
                        (case print_pages_params_' this of
                           None \<Rightarrow> Inl NullDereference
                         | Some p \<Rightarrow>
                             (let this = this\<lparr>print_pages_params_' :=
                                    Some (p\<lparr>params := (params p)
                                      \<lparr>should_print_backgrounds := print_background\<rparr>\<rparr>)\<rparr>
                              in
                                case RenderPagesForPrint os env frame_ref node this of
                                  Inl e \<Rightarrow> Inl e
                                | Inr (rendered, this) \<Rightarrow>
                                    if \<not> rendered then
                                      Inr (DidFinishPrinting FAIL_PRINT this)
                                    else Inr this)))))"

subsection \<open>Concrete inputs\<close>

text \<open>
  Print parameters with the given page size, content size, top and left margin and
  device resolution; the printable area is the whole page. A frame without page CSS
  (it leaves the five in-out arguments alone), reporting \<open>page_count\<close> pages. A host that
  answers with \<open>defaults\<close> and \<open>reply\<close>.
\<close>

definition example_params ::
  "int \<Rightarrow> int \<Rightarrow> int \<Rightarrow> int \<Rightarrow> int \<Rightarrow> int \<Rightarrow> real \<Rightarrow> PrintMsg_Print_Params" where
  "example_params page_w page_h content_w content_h mtop mleft device_dpi =
     \<lparr>page_size = gfx_Size page_w page_h,
      content_size = gfx_Size content_w content_h,
      printable_area = \<lparr>rect_x = 0, rect_y = 0, rect_size = gfx_Size page_w page_h\<rparr>,
      margin_top = mtop,
      margin_left = mleft,
      dpi = device_dpi,
      min_shrink = 1.25,
      max_shrink = 2,
      desired_dpi = 72,
      document_cookie = 1,
      selection_only = False,
      print_scaling_option = WebPrintScalingOptionSourceSize,
      should_print_backgrounds = False\<rparr>"

definition unstyled_frame :: "int \<Rightarrow> WebFrame" where
  "unstyled_frame page_count =
     \<lparr>pageSizeAndMarginsInPixels = (\<lambda>page_index args. args),
      printBegin = (\<lambda>print_params node. page_count),
      hasSelection = False,
      plugin = None,
      isPrintScalingDisabledForPlugin = (\<lambda>node. False)\<rparr>"

definition example_environment ::
  "PrintMsg_Print_Params \<Rightarrow> PrintMsg_PrintPages_Params \<Rightarrow> environment" where
  "example_environment defaults reply =
     \<lparr>default_print_settings = defaults,
      scripted_print = (\<lambda>request. reply),
      selection_web_frame = unstyled_frame 1,
      platform_PrintPagesNative = (\<lambda>frame page_count this. (True, this))\<rparr>"

definition letter_72 :: PrintMsg_Print_Params where
  "letter_72 = example_params 612 792 576 756 18 18 72"

definition zero_reply :: PrintMsg_PrintPages_Params where
  "zero_reply =
     \<lparr>params = (example_params 0 0 0 0 0 0 0)\<lparr>document_cookie := 0\<rparr>, pages = []\<rparr>"

definition busy_helper :: PrintWebViewHelper where
  "busy_helper =
     PrintWebViewHelper_new
       \<lparr>prep_frame_view_' :=
          Some \<lparr>frame_' = Some (unstyled_frame 0),
                node_to_print_' = NullNode,
                owns_web_view_' = False,
                web_print_params_' = WebPrintParams_default,
                expected_pages_count_' = 0,
                should_print_backgrounds_' = False,
                should_print_selection_only_' = False,
                is_printing_started_' = False\<rparr>,
        print_pages_params_' := Some \<lparr>params = letter_72, pages = [5, 0]\<rparr>\<rparr>"

definition helper_with_pages :: "int list \<Rightarrow> PrintWebViewHelper" where
  "helper_with_pages requested =
     PrintWebViewHelper_new
       \<lparr>print_pages_params_' := Some \<lparr>params = letter_72, pages = requested\<rparr>\<rparr>"

section \<open>Properties\<close>

subsection \<open>Evaluation and rounding\<close>

lemmas geometry_defs =
  example_params_def gfx_Size_def width_def height_def SetSize_def IsEmpty_def
  rect_width_def rect_height_def set_size_def rect_IsEmpty_def kPointsPerInch_def
  kPixelsPerInch_def cdiv_def ConvertUnit_def static_cast_int_def kMinDpi_def GetDPI_def
  PrintMsg_Print_Params_IsValid_def

lemmas session_defs =
  CalculateNumberOfPages_def InitPrintSettings_def PrepareFrameAndViewForPrint_new_def
  StartPrinting_def GetExpectedPageCount_def ComputeWebKitPrintParamsInDesiredDpi_def
  CalculatePrintParamsForCss_def EnsureOrientationMatches_def PrintingNodeOrPdfFrame_def
  SetPrintPagesParams_def Send_def WebPrintParams_default_def PrintWebViewHelper_new_def
  example_environment_def unstyled_frame_def letter_72_def













subsection \<open>Print while a session is in flight\<close>

text \<open>
  C1. While \<open>prep_frame_view_'\<close> holds an object, \<open>Print\<close> returns at once and the helper
  is what it was: every member, and the trace of what it sent, is unchanged.
\<close>

theorem Print_ignored_while_busy:
  "prep_frame_view_' this \<noteq> None \<Longrightarrow>
   Print os env frame node silent print_background this = Inr this"
  by (simp add: Print_def)

text \<open>C1 at a helper that holds a preparation object and pending parameters.\<close>

theorem Print_ignored_while_busy_witness:
  "prep_frame_view_' busy_helper \<noteq> None \<and>
   Print OS_MACOSX (example_environment letter_72 zero_reply) (unstyled_frame 2) NullNode
     False True busy_helper = Inr busy_helper"
proof -
  have busy: "prep_frame_view_' busy_helper \<noteq> None"
    by (simp add: busy_helper_def)
  from Print_ignored_while_busy[OF busy] busy show ?thesis by simp
qed

subsection \<open>Orientation\<close>

text \<open>
  C9. \<open>EnsureOrientationMatches\<close> changes at most the page size, the content size and the
  size of the printable area: the result is the argument with these three overwritten.
  The margins, the origin of the printable area and every other field, also the fields
  the record does not list, are the argument's.
\<close>

theorem EnsureOrientationMatches_frame:
  "EnsureOrientationMatches css_params page_params =
     page_params
       \<lparr>page_size := page_size (EnsureOrientationMatches css_params page_params),
        content_size := content_size (EnsureOrientationMatches css_params page_params),
        printable_area :=
          (printable_area page_params)
            \<lparr>rect_size :=
               rect_size (printable_area
                 (EnsureOrientationMatches css_params page_params))\<rparr>\<rparr> \<and>
   margin_top (EnsureOrientationMatches css_params page_params) = margin_top page_params \<and>
   margin_left (EnsureOrientationMatches css_params page_params) = margin_left page_params \<and>
   rect_x (printable_area (EnsureOrientationMatches css_params page_params)) =
     rect_x (printable_area page_params) \<and>
   rect_y (printable_area (EnsureOrientationMatches css_params page_params)) =
     rect_y (printable_area page_params)"
  by (simp add: EnsureOrientationMatches_def set_size_def)

text \<open>C9 at a portrait page and a landscape CSS page, where the swap is performed.\<close>

theorem EnsureOrientationMatches_frame_witness:
  "page_size (EnsureOrientationMatches (example_params 792 612 756 576 18 18 72)
                (example_params 612 792 576 756 24 12 72)) = gfx_Size 792 612 \<and>
   margin_top (EnsureOrientationMatches (example_params 792 612 756 576 18 18 72)
                (example_params 612 792 576 756 24 12 72)) = 24 \<and>
   margin_left (EnsureOrientationMatches (example_params 792 612 756 576 18 18 72)
                (example_params 612 792 576 756 24 12 72)) = 12"
proof -
  have "page_size (EnsureOrientationMatches (example_params 792 612 756 576 18 18 72)
                (example_params 612 792 576 756 24 12 72)) = gfx_Size 792 612"
    by (simp add: EnsureOrientationMatches_def geometry_defs)
  moreover have "margin_top (example_params 612 792 576 756 24 12 72) = 24"
    "margin_left (example_params 612 792 576 756 24 12 72) = 12"
    by (simp_all add: example_params_def)
  ultimately show ?thesis
    using EnsureOrientationMatches_frame[of "example_params 792 612 756 576 18 18 72"
            "example_params 612 792 576 756 24 12 72"]
    by simp
qed

text \<open>
  C5, as stated, fails: a portrait Letter page against a landscape CSS page is swapped by
  the first application, and the second application finds the orientations equal and
  changes nothing, so two applications give the landscape page, not the original.
\<close>

theorem EnsureOrientationMatches_twice_stays_swapped:
  "EnsureOrientationMatches (example_params 792 612 756 576 18 18 72)
     (EnsureOrientationMatches (example_params 792 612 756 576 18 18 72)
        (example_params 612 792 576 756 18 18 72)) =
     example_params 792 612 756 576 18 18 72 \<and>
   example_params 792 612 756 576 18 18 72 \<noteq> example_params 612 792 576 756 18 18 72"
  by (simp add: EnsureOrientationMatches_def geometry_defs)

text \<open>
  C5, amended. Two applications with the same CSS parameters give the original when the
  page is square (then also whenever the first application swaps, the second swaps
  back); for every other page the second application changes nothing, so two
  applications equal one.
\<close>

theorem EnsureOrientationMatches_twice:
  "EnsureOrientationMatches css_params (EnsureOrientationMatches css_params page_params) =
     (if width (page_size page_params) = height (page_size page_params) then page_params
      else EnsureOrientationMatches css_params page_params)"
  by (simp add: EnsureOrientationMatches_def set_size_def SetSize_def gfx_Size_def
        width_def height_def rect_width_def rect_height_def)

text \<open>C5, amended, at a square page with a content area that is not square.\<close>

theorem EnsureOrientationMatches_twice_witness:
  "EnsureOrientationMatches (example_params 792 612 756 576 18 18 72)
     (EnsureOrientationMatches (example_params 792 612 756 576 18 18 72)
        (example_params 600 600 500 400 18 18 72)) =
     example_params 600 600 500 400 18 18 72 \<and>
   content_size (EnsureOrientationMatches (example_params 792 612 756 576 18 18 72)
        (example_params 600 600 500 400 18 18 72)) = gfx_Size 400 500"
proof -
  have "content_size (EnsureOrientationMatches (example_params 792 612 756 576 18 18 72)
        (example_params 600 600 500 400 18 18 72)) = gfx_Size 400 500"
    by (simp add: EnsureOrientationMatches_def geometry_defs)
  moreover have "width (page_size (example_params 600 600 500 400 18 18 72)) =
                 height (page_size (example_params 600 600 500 400 18 18 72))"
    by (simp add: geometry_defs)
  ultimately show ?thesis
    using EnsureOrientationMatches_twice[of "example_params 792 612 756 576 18 18 72"
            "example_params 600 600 500 400 18 18 72"]
    by simp
qed

subsection \<open>Initial settings\<close>

lemma InitPrintSettings_eq:
  "InitPrintSettings env fit this =
     (PrintMsg_Print_Params_IsValid (default_print_settings env),
      this\<lparr>ignore_css_margins_' := False,
           print_pages_params_' :=
             Some \<lparr>params = (default_print_settings env)
                     \<lparr>print_scaling_option :=
                        if fit then WebPrintScalingOptionFitToPrintableArea
                        else WebPrintScalingOptionSourceSize\<rparr>,
                   pages = []\<rparr>,
           events := events this @ [PrintHostMsg_GetDefaultPrintSettings]\<rparr>)"
  by (simp add: InitPrintSettings_def Let_def SetPrintPagesParams_def Send_def)

text \<open>
  C10. \<open>InitPrintSettings\<close> returns whether the host's default settings are valid, and
  in both cases the helper's parameters are the host's settings with an empty page list
  and the scaling option of the flag, and \<open>ignore_css_margins_'\<close> is false: nothing of the
  parameters held before remains. When the settings are not valid,
  \<open>CalculateNumberOfPages\<close> returns false with these parameters in place.
\<close>

theorem InitPrintSettings_replaces_params:
  "InitPrintSettings env fit_to_paper_size this =
     (PrintMsg_Print_Params_IsValid (default_print_settings env),
      this\<lparr>ignore_css_margins_' := False,
           print_pages_params_' :=
             Some \<lparr>params = (default_print_settings env)
                     \<lparr>print_scaling_option :=
                        if fit_to_paper_size then WebPrintScalingOptionFitToPrintableArea
                        else WebPrintScalingOptionSourceSize\<rparr>,
                   pages = []\<rparr>,
           events := events this @ [PrintHostMsg_GetDefaultPrintSettings]\<rparr>) \<and>
   (\<not> PrintMsg_Print_Params_IsValid (default_print_settings env) \<longrightarrow>
    CalculateNumberOfPages os env frame node number_of_pages this =
      Inr (False, number_of_pages,
           this\<lparr>ignore_css_margins_' := False,
                print_pages_params_' :=
                  Some \<lparr>params = (default_print_settings env)
                          \<lparr>print_scaling_option :=
                             if \<not> PrintingNodeOrPdfFrame frame node
                             then WebPrintScalingOptionFitToPrintableArea
                             else WebPrintScalingOptionSourceSize\<rparr>,
                        pages = []\<rparr>,
                notify_browser_of_print_failure_' := False,
                events := events this @
                  [PrintHostMsg_GetDefaultPrintSettings,
                   PrintHostMsg_ShowInvalidPrinterSettingsError]\<rparr>))"
  by (simp add: InitPrintSettings_eq CalculateNumberOfPages_def Let_def Send_def)

text \<open>
  C10 at a host without a printer (its settings are all zero) and a helper that still
  holds the parameters of an earlier request, with two requested pages.
\<close>

theorem InitPrintSettings_replaces_params_witness:
  "\<not> PrintMsg_Print_Params_IsValid (params zero_reply) \<and>
   print_pages_params_' busy_helper = Some \<lparr>params = letter_72, pages = [5, 0]\<rparr> \<and>
   fst (InitPrintSettings (example_environment (params zero_reply) zero_reply) True
          busy_helper) = False \<and>
   print_pages_params_'
     (snd (InitPrintSettings (example_environment (params zero_reply) zero_reply) True
             busy_helper)) =
     Some \<lparr>params = (params zero_reply)
             \<lparr>print_scaling_option := WebPrintScalingOptionFitToPrintableArea\<rparr>,
           pages = []\<rparr> \<and>
   (\<exists>that. CalculateNumberOfPages OS_OTHER
             (example_environment (params zero_reply) zero_reply)
             (unstyled_frame 2) NullNode 0 busy_helper = Inr (False, 0, that))"
proof -
  have invalid: "\<not> PrintMsg_Print_Params_IsValid (params zero_reply)"
    by (simp add: zero_reply_def geometry_defs)
  have env: "default_print_settings (example_environment (params zero_reply) zero_reply) =
             params zero_reply"
    by (simp add: example_environment_def)
  have held: "print_pages_params_' busy_helper = Some \<lparr>params = letter_72, pages = [5, 0]\<rparr>"
    by (simp add: busy_helper_def)
  show ?thesis
    using InitPrintSettings_replaces_params[of
            "example_environment (params zero_reply) zero_reply" True busy_helper
            OS_OTHER "unstyled_frame 2" NullNode 0]
          invalid held
    by (simp add: env)
qed

subsection \<open>Fit to page\<close>




subsection \<open>The CSS page layout\<close>








lemma GetDPI_valid: "PrintMsg_Print_Params_IsValid p \<Longrightarrow> 0 < GetDPI os p"
  by (auto simp add: GetDPI_def PrintMsg_Print_Params_IsValid_def kPointsPerInch_def
        static_cast_int_def kMinDpi_def)






text \<open>
  C4. The claim is what the \<^verbatim>\<open>CHECK(frame != NULL)\<close> asserts, and the code breaks it: for
  valid parameters whose content area is smaller than about one pixel, here a Letter page
  at 300 dpi with a content area of 1 by 1, the call without a frame computes the pixel
  content width 816 - 0 - 816 = 0, so the check of the degenerate layout fails on the
  call without a frame, directly and as the fallback of a call with a frame.
\<close>

theorem GetCssPrintParams_fallback_CHECK_fails:
  "PrintMsg_Print_Params_IsValid (example_params 2550 3300 1 1 0 0 300) \<and>
   GetCssPrintParams OS_OTHER None 0 (example_params 2550 3300 1 1 0 0 300) =
     Inl CHECK_failed \<and>
   GetCssPrintParams OS_OTHER (Some (unstyled_frame 1)) 0
       (example_params 2550 3300 1 1 0 0 300) =
     Inl CHECK_failed"
  by (simp add: GetCssPrintParams.simps unstyled_frame_def geometry_defs Let_def)

subsection \<open>The end of a session\<close>

lemma DidFinishPrinting_fields:
  "prep_frame_view_' (DidFinishPrinting r this) = None"
  "print_pages_params_' (DidFinishPrinting r this) = None"
  "notify_browser_of_print_failure_' (DidFinishPrinting r this) = True"
  by (simp_all add: DidFinishPrinting_def Let_def)

lemma DidFinishPrinting_events:
  "events (DidFinishPrinting r this) =
     events this @ DidFinishPrinting_called r #
       (case print_pages_params_' this of
          None \<Rightarrow> []
        | Some p \<Rightarrow>
            if r = FAIL_PRINT \<and> notify_browser_of_print_failure_' this
            then [PrintHostMsg_PrintingFailed (document_cookie (params p))] else [])"
  by (cases r) (simp_all add: DidFinishPrinting_def Let_def Send_def split: option.splits)

lemma CalculateNumberOfPages_counted:
  assumes "CalculateNumberOfPages os env frame node n0 this = Inr (True, n, this1)"
  shows "this1 = snd (InitPrintSettings env (\<not> PrintingNodeOrPdfFrame frame node) this)"
  using assms
  by (auto simp add: CalculateNumberOfPages_def Let_def
        split: if_splits option.splits sum.splits)

lemma Print_zero_pages:
  assumes "prep_frame_view_' this = None"
      and "CalculateNumberOfPages os env frame node 0 this = Inr (True, 0, this1)"
  shows "Print os env frame node silent print_background this =
           Inr (DidFinishPrinting FAIL_PRINT this1)"
    and "events (DidFinishPrinting FAIL_PRINT this1) =
           events this @
             [PrintHostMsg_GetDefaultPrintSettings, DidFinishPrinting_called FAIL_PRINT] @
             (if notify_browser_of_print_failure_' this
              then [PrintHostMsg_PrintingFailed
                      (document_cookie (default_print_settings env))]
              else [])"
proof -
  show "Print os env frame node silent print_background this =
           Inr (DidFinishPrinting FAIL_PRINT this1)"
    using assms by (simp add: Print_def)
  show "events (DidFinishPrinting FAIL_PRINT this1) =
           events this @
             [PrintHostMsg_GetDefaultPrintSettings, DidFinishPrinting_called FAIL_PRINT] @
             (if notify_browser_of_print_failure_' this
              then [PrintHostMsg_PrintingFailed
                      (document_cookie (default_print_settings env))]
              else [])"
    unfolding CalculateNumberOfPages_counted[OF assms(2)]
    by (simp add: DidFinishPrinting_events InitPrintSettings_eq)
qed

lemma PrintPages_zero_pages:
  assumes "prep_frame_view_' this = Some prep" and "frame_' prep = Some f"
      and "printBegin f (web_print_params_' prep) (node_to_print_' prep) = 0"
  shows "PrintPages os env this =
           Inr (DidFinishPrinting FAIL_PRINT
                  (this\<lparr>prep_frame_view_' :=
                     Some (prep\<lparr>expected_pages_count_' := 0,
                                is_printing_started_' := True\<rparr>)\<rparr>))"
  using assms by (simp add: PrintPages_def StartPrinting_def GetExpectedPageCount_def Let_def)

text \<open>
  C6. A page count of 0 ends the session with \<open>FAIL_PRINT\<close>, at both places where the
  engine reports it. In \<open>Print\<close>, when \<open>CalculateNumberOfPages\<close> succeeds with 0 pages:
  \<open>Print\<close> returns what \<open>DidFinishPrinting FAIL_PRINT\<close> leaves, and all it did is to
  ask for the default settings, to finish with \<open>FAIL_PRINT\<close> and (when the failure notice
  is armed) to send \<open>PrintingFailed\<close>. In \<open>PrintPages\<close>, when \<open>printBegin\<close> of the
  prepared frame returns 0: it finishes with \<open>FAIL_PRINT\<close> and at most sends
  \<open>PrintingFailed\<close>. In neither case a page goes to \<open>PrintPageInternal\<close> or a
  \<open>DidGetPrintedPagesCount\<close> is sent, and both members are cleared.
\<close>

theorem zero_page_count_finishes_FAIL_PRINT:
  "(prep_frame_view_' this = None \<and>
    CalculateNumberOfPages os env frame node 0 this = Inr (True, 0, this1) \<longrightarrow>
      (\<exists>this'. Print os env frame node silent print_background this = Inr this' \<and>
         this' = DidFinishPrinting FAIL_PRINT this1 \<and>
         prep_frame_view_' this' = None \<and> print_pages_params_' this' = None \<and>
         events this' =
           events this @
             [PrintHostMsg_GetDefaultPrintSettings, DidFinishPrinting_called FAIL_PRINT] @
             (if notify_browser_of_print_failure_' this
              then [PrintHostMsg_PrintingFailed
                      (document_cookie (default_print_settings env))]
              else []))) \<and>
   (prep_frame_view_' that = Some prep \<and> frame_' prep = Some f \<and>
    printBegin f (web_print_params_' prep) (node_to_print_' prep) = 0 \<longrightarrow>
      (\<exists>that'. PrintPages os env that = Inr that' \<and>
         prep_frame_view_' that' = None \<and> print_pages_params_' that' = None \<and>
         events that' =
           events that @ DidFinishPrinting_called FAIL_PRINT #
             (case print_pages_params_' that of
                None \<Rightarrow> []
              | Some p \<Rightarrow>
                  if notify_browser_of_print_failure_' that
                  then [PrintHostMsg_PrintingFailed (document_cookie (params p))]
                  else [])))"
proof (intro conjI impI)
  assume a: "prep_frame_view_' this = None \<and>
    CalculateNumberOfPages os env frame node 0 this = Inr (True, 0, this1)"
  show "\<exists>this'. Print os env frame node silent print_background this = Inr this' \<and>
         this' = DidFinishPrinting FAIL_PRINT this1 \<and>
         prep_frame_view_' this' = None \<and> print_pages_params_' this' = None \<and>
         events this' =
           events this @
             [PrintHostMsg_GetDefaultPrintSettings, DidFinishPrinting_called FAIL_PRINT] @
             (if notify_browser_of_print_failure_' this
              then [PrintHostMsg_PrintingFailed
                      (document_cookie (default_print_settings env))]
              else [])"
    using Print_zero_pages[OF conjunct1[OF a] conjunct2[OF a]]
    by (simp add: DidFinishPrinting_fields)
next
  assume b: "prep_frame_view_' that = Some prep \<and> frame_' prep = Some f \<and>
    printBegin f (web_print_params_' prep) (node_to_print_' prep) = 0"
  then have b1: "prep_frame_view_' that = Some prep" and b2: "frame_' prep = Some f"
    and b3: "printBegin f (web_print_params_' prep) (node_to_print_' prep) = 0"
    by blast+
  have "PrintPages os env that =
           Inr (DidFinishPrinting FAIL_PRINT
                  (that\<lparr>prep_frame_view_' :=
                     Some (prep\<lparr>expected_pages_count_' := 0,
                                is_printing_started_' := True\<rparr>)\<rparr>))"
    by (rule PrintPages_zero_pages[OF b1 b2 b3])
  then show "\<exists>that'. PrintPages os env that = Inr that' \<and>
         prep_frame_view_' that' = None \<and> print_pages_params_' that' = None \<and>
         events that' =
           events that @ DidFinishPrinting_called FAIL_PRINT #
             (case print_pages_params_' that of
                None \<Rightarrow> []
              | Some p \<Rightarrow>
                  if notify_browser_of_print_failure_' that
                  then [PrintHostMsg_PrintingFailed (document_cookie (params p))]
                  else [])"
    by (simp add: DidFinishPrinting_fields DidFinishPrinting_events split: option.splits)
qed

lemma CalculateNumberOfPages_example:
  "\<exists>this1. CalculateNumberOfPages OS_OTHER (example_environment letter_72 zero_reply)
             (unstyled_frame n) NullNode 0 PrintWebViewHelper_new = Inr (True, n, this1)"
  by (simp add: session_defs GetCssPrintParams.simps geometry_defs Let_def)

text \<open>
  C6 at a frame that reports 0 pages: a \<open>Print\<close> of a fresh helper, whose host offers
  Letter settings with the cookie 1, and a \<open>PrintPages\<close> of a helper that holds a
  preparation object for such a frame.
\<close>

theorem zero_page_count_finishes_FAIL_PRINT_witness:
  "(\<exists>this'. Print OS_OTHER (example_environment letter_72 zero_reply) (unstyled_frame 0)
              NullNode True False PrintWebViewHelper_new = Inr this' \<and>
      prep_frame_view_' this' = None \<and> print_pages_params_' this' = None \<and>
      events this' =
        [PrintHostMsg_GetDefaultPrintSettings, DidFinishPrinting_called FAIL_PRINT,
         PrintHostMsg_PrintingFailed 1]) \<and>
   (\<exists>that'. PrintPages OS_OTHER (example_environment letter_72 zero_reply) busy_helper =
              Inr that' \<and>
      prep_frame_view_' that' = None \<and> print_pages_params_' that' = None \<and>
      events that' = [DidFinishPrinting_called FAIL_PRINT, PrintHostMsg_PrintingFailed 1])"
proof -
  obtain this1 where counted:
    "CalculateNumberOfPages OS_OTHER (example_environment letter_72 zero_reply)
       (unstyled_frame 0) NullNode 0 PrintWebViewHelper_new = Inr (True, 0, this1)"
    using CalculateNumberOfPages_example[of 0] by blast
  have idle: "prep_frame_view_' PrintWebViewHelper_new = None"
    by (simp add: PrintWebViewHelper_new_def)
  define prep where "prep =
      \<lparr>frame_' = Some (unstyled_frame 0), node_to_print_' = NullNode,
       owns_web_view_' = False, web_print_params_' = WebPrintParams_default,
       expected_pages_count_' = 0, should_print_backgrounds_' = False,
       should_print_selection_only_' = False, is_printing_started_' = False\<rparr>"
  have busy: "prep_frame_view_' busy_helper = Some prep" "frame_' prep = Some (unstyled_frame 0)"
    "printBegin (unstyled_frame 0) (web_print_params_' prep) (node_to_print_' prep) = 0"
    by (simp_all add: busy_helper_def prep_def unstyled_frame_def)
  have facts: "events PrintWebViewHelper_new = []"
    "notify_browser_of_print_failure_' PrintWebViewHelper_new"
    "document_cookie (default_print_settings (example_environment letter_72 zero_reply)) = 1"
    "events busy_helper = []" "notify_browser_of_print_failure_' busy_helper"
    "print_pages_params_' busy_helper = Some \<lparr>params = letter_72, pages = [5, 0]\<rparr>"
    "document_cookie letter_72 = 1"
    by (simp_all add: PrintWebViewHelper_new_def busy_helper_def example_environment_def
          letter_72_def example_params_def)
  show ?thesis
    using zero_page_count_finishes_FAIL_PRINT[of PrintWebViewHelper_new OS_OTHER
            "example_environment letter_72 zero_reply" "unstyled_frame 0" NullNode this1
            True False busy_helper prep "unstyled_frame 0"]
          counted idle busy
    by (simp add: facts)
qed

subsection \<open>The settings of the user\<close>

lemma GetPrintSettingsFromUser_eq:
  assumes "print_pages_params_' this = Some p"
  shows "GetPrintSettingsFromUser env (Some f) node n this =
    (let request = \<lparr>cookie = document_cookie (params p),
                     has_selection = hasSelection f,
                     expected_pages_count = n,
                     margin_type = (if PrintingNodeOrPdfFrame f node
                                    then GetMarginsForPdf f node else DEFAULT_MARGINS)\<rparr>;
         reply = scripted_print env request
     in Inr (dpi (params reply) \<noteq> 0 \<and> document_cookie (params reply) \<noteq> 0,
             this\<lparr>print_pages_params_' :=
                    Some (reply\<lparr>params := (params reply)
                       \<lparr>print_scaling_option := print_scaling_option (params p)\<rparr>\<rparr>),
                  events := events this @ [PrintHostMsg_ScriptedPrint request]\<rparr>))"
  using assms
  by (simp add: GetPrintSettingsFromUser_def Let_def Send_def SetPrintPagesParams_def)

text \<open>
  C7. A \<open>Print\<close> that is not silent, on an idle helper, whose page count succeeded with
  \<open>n\<close> pages, \<open>n\<close> not 0, and whose \<open>ScriptedPrint\<close> reply has a zero \<open>dpi\<close> or a zero
  document cookie: \<open>Print\<close> returns, the preparation object and the parameters are
  cleared, and all it did is to ask for the default settings, to send the
  \<open>ScriptedPrint\<close> request and to finish with \<open>OK\<close>: no \<open>PrintingFailed\<close> is sent.
\<close>

theorem cancelled_user_settings_finish_OK:
  assumes idle: "prep_frame_view_' this = None"
      and loud: "\<not> silent"
      and counted: "CalculateNumberOfPages os env frame node 0 this = Inr (True, n, this1)"
      and some: "n \<noteq> 0"
      and request: "request =
             \<lparr>cookie = document_cookie (default_print_settings env),
              has_selection = hasSelection frame,
              expected_pages_count = n,
              margin_type = (if PrintingNodeOrPdfFrame frame node
                             then GetMarginsForPdf frame node else DEFAULT_MARGINS)\<rparr>"
      and cancelled: "dpi (params (scripted_print env request)) = 0 \<or>
                      document_cookie (params (scripted_print env request)) = 0"
  shows "\<exists>this'. Print os env frame node silent print_background this = Inr this' \<and>
           prep_frame_view_' this' = None \<and>
           print_pages_params_' this' = None \<and>
           events this' = events this @
             [PrintHostMsg_GetDefaultPrintSettings, PrintHostMsg_ScriptedPrint request,
              DidFinishPrinting_called OK]"
proof -
  have this1: "this1 = snd (InitPrintSettings env (\<not> PrintingNodeOrPdfFrame frame node) this)"
    using CalculateNumberOfPages_counted[OF counted] .
  obtain p where p: "print_pages_params_' this1 = Some p"
     "document_cookie (params p) = document_cookie (default_print_settings env)"
    unfolding this1 by (simp add: InitPrintSettings_eq)
  have ev1: "events this1 = events this @ [PrintHostMsg_GetDefaultPrintSettings]"
    unfolding this1 by (simp add: InitPrintSettings_eq)
  let ?this2 = "this1\<lparr>print_pages_params_' :=
        Some ((scripted_print env request)\<lparr>params := (params (scripted_print env request))
           \<lparr>print_scaling_option := print_scaling_option (params p)\<rparr>\<rparr>),
      events := events this1 @ [PrintHostMsg_ScriptedPrint request]\<rparr>"
  have g: "GetPrintSettingsFromUser env (Some frame) node n this1 = Inr (False, ?this2)"
    using cancelled
    by (auto simp add: GetPrintSettingsFromUser_eq[OF p(1)] Let_def p(2) request)
  have "Print os env frame node silent print_background this =
          Inr (DidFinishPrinting OK ?this2)"
    using idle loud counted some g by (simp add: Print_def)
  moreover have "events (DidFinishPrinting OK ?this2) = events this @
             [PrintHostMsg_GetDefaultPrintSettings, PrintHostMsg_ScriptedPrint request,
              DidFinishPrinting_called OK]"
    by (simp add: DidFinishPrinting_events ev1)
  ultimately show ?thesis by (simp add: DidFinishPrinting_fields)
qed

text \<open>
  C7 at a host that offers Letter settings and answers the \<open>ScriptedPrint\<close> request with
  all zeros (a cancelled dialog), for a frame of 3 pages.
\<close>

theorem cancelled_user_settings_finish_OK_witness:
  "\<exists>this'. Print OS_OTHER (example_environment letter_72 zero_reply) (unstyled_frame 3)
             NullNode False False PrintWebViewHelper_new = Inr this' \<and>
     prep_frame_view_' this' = None \<and> print_pages_params_' this' = None \<and>
     events this' =
       [PrintHostMsg_GetDefaultPrintSettings,
        PrintHostMsg_ScriptedPrint
          \<lparr>cookie = 1, has_selection = False, expected_pages_count = 3,
           margin_type = DEFAULT_MARGINS\<rparr>,
        DidFinishPrinting_called OK]"
proof -
  obtain this1 where c:
    "CalculateNumberOfPages OS_OTHER (example_environment letter_72 zero_reply)
       (unstyled_frame 3) NullNode 0 PrintWebViewHelper_new = Inr (True, 3, this1)"
    using CalculateNumberOfPages_example[of 3] by blast
  have idle: "prep_frame_view_' PrintWebViewHelper_new = None"
    by (simp add: PrintWebViewHelper_new_def)
  have r: "\<lparr>cookie = 1, has_selection = False, expected_pages_count = 3,
           margin_type = DEFAULT_MARGINS\<rparr> =
     \<lparr>cookie = document_cookie
                 (default_print_settings (example_environment letter_72 zero_reply)),
      has_selection = hasSelection (unstyled_frame 3),
      expected_pages_count = 3,
      margin_type = (if PrintingNodeOrPdfFrame (unstyled_frame 3) NullNode
                     then GetMarginsForPdf (unstyled_frame 3) NullNode
                     else DEFAULT_MARGINS)\<rparr>"
    by (simp add: example_environment_def letter_72_def example_params_def unstyled_frame_def
          PrintingNodeOrPdfFrame_def)
  have z: "dpi (params (scripted_print (example_environment letter_72 zero_reply)
              \<lparr>cookie = 1, has_selection = False, expected_pages_count = 3,
                margin_type = DEFAULT_MARGINS\<rparr>)) = 0 \<or>
           document_cookie (params (scripted_print (example_environment letter_72 zero_reply)
              \<lparr>cookie = 1, has_selection = False, expected_pages_count = 3,
                margin_type = DEFAULT_MARGINS\<rparr>)) = 0"
    by (simp add: example_environment_def zero_reply_def example_params_def)
  have n: "(3::int) \<noteq> 0" by simp
  have l: "\<not> False" by simp
  show ?thesis
    using cancelled_user_settings_finish_OK[OF idle l c n r z, of False]
    by (simp add: PrintWebViewHelper_new_def)
qed

subsection \<open>The requested pages\<close>

lemma PrintPagesNative_requested_events:
  "PrintPagesNative_requested ps n this =
     this\<lparr>events := events this @ map PrintPageInternal (takeWhile (\<lambda>i. i < n) ps)\<rparr>"
  by (induction ps arbitrary: this) (simp_all add: Send_def)

lemma takeWhile_filter_sorted:
  "sorted ps \<Longrightarrow> takeWhile (\<lambda>i. i < n) ps = filter (\<lambda>i. i < (n::int)) ps"
proof (induction ps)
  case Nil
  then show ?case by simp
next
  case (Cons p ps)
  show ?case
  proof (cases "p < n")
    case True
    then show ?thesis using Cons by simp
  next
    case False
    then have "\<forall>x \<in> set ps. \<not> x < n" using Cons.prems by auto
    then have "filter (\<lambda>i. i < n) ps = []" by (simp add: filter_empty_conv)
    then show ?thesis using False by simp
  qed
qed

text \<open>
  C8, as stated, fails: with the requested pages 5 and 0 and a page count of 3, the loop
  leaves at page 5 and renders nothing, while page 0 is requested and below the count.
\<close>

theorem PrintPagesNative_stops_at_first_high_page:
  "pages \<lparr>params = letter_72, pages = [5, 0]\<rparr> \<noteq> [] \<and>
   PrintPagesNative OS_MACOSX (example_environment letter_72 zero_reply) None 3
       (helper_with_pages [5, 0]) =
     Inr (True, helper_with_pages [5, 0]) \<and>
   events (helper_with_pages [5, 0]) = [] \<and>
   map PrintPageInternal (filter (\<lambda>i. i < 3) [5, 0]) = [PrintPageInternal 0]"
  by (simp add: PrintPagesNative_def helper_with_pages_def PrintWebViewHelper_new_def)

text \<open>
  C8, amended. For a list of requested pages that is not empty, the loop of
  \<open>PrintPagesNative\<close> (as defined for \<open>OS_MACOSX\<close>) renders, in the given order, the
  requested pages that come before the first one not below the page count, and no
  others; for an ascending list these are exactly the requested pages below the page
  count.
\<close>

theorem PrintPagesNative_requested_prefix:
  assumes "print_pages_params_' this = Some p" and "pages p \<noteq> []"
  shows "PrintPagesNative OS_MACOSX env frame page_count this =
     Inr (True, this\<lparr>events := events this @
            map PrintPageInternal (takeWhile (\<lambda>i. i < page_count) (pages p))\<rparr>) \<and>
     (if sorted (pages p)
      then takeWhile (\<lambda>i. i < page_count) (pages p) =
           filter (\<lambda>i. i < page_count) (pages p)
      else True)"
  using assms
  by (simp add: PrintPagesNative_def PrintPagesNative_requested_events
        takeWhile_filter_sorted)

text \<open>C8, amended, at the requested pages 1, 0, 4, 2 and a page count of 3.\<close>

theorem PrintPagesNative_requested_prefix_witness:
  "events (snd (projr (PrintPagesNative OS_MACOSX (example_environment letter_72 zero_reply)
                         None 3 (helper_with_pages [1, 0, 4, 2])))) =
     [PrintPageInternal 1, PrintPageInternal 0]"
proof -
  have held: "print_pages_params_' (helper_with_pages [1, 0, 4, 2]) =
                Some \<lparr>params = letter_72, pages = [1, 0, 4, 2]\<rparr>"
    by (simp add: helper_with_pages_def)
  have some: "pages \<lparr>params = letter_72, pages = [1, 0, 4, 2]\<rparr> \<noteq> []"
    by simp
  have none: "events (helper_with_pages [1, 0, 4, 2]) = []"
    by (simp add: helper_with_pages_def PrintWebViewHelper_new_def)
  show ?thesis
    using PrintPagesNative_requested_prefix[OF held some,
            of "example_environment letter_72 zero_reply" None 3]
    by (simp add: none)
qed

subsection \<open>Further properties of the geometry\<close>

text \<open>
  The \<^verbatim>\<open>CHECK\<close> of \<open>GetCssPrintParams\<close> fails only on a call without a frame: a call with
  a frame fails it exactly through its one fallback call, never on its own layout.
\<close>

theorem GetCssPrintParams_CHECK_only_without_frame:
  "GetCssPrintParams os frame page_index page_params = Inl CHECK_failed \<Longrightarrow>
   GetCssPrintParams os None page_index page_params = Inl CHECK_failed"
proof (cases frame)
  case None
  then show "GetCssPrintParams os frame page_index page_params = Inl CHECK_failed \<Longrightarrow>
    ?thesis" by simp
next
  case (Some f)
  assume "GetCssPrintParams os frame page_index page_params = Inl CHECK_failed"
  then show ?thesis
    unfolding Some
    by (subst (asm) GetCssPrintParams.simps) (simp add: Let_def split: if_splits)
qed

text \<open>The same at the Letter page at 300 dpi with a content area of 1 by 1.\<close>

theorem GetCssPrintParams_CHECK_only_without_frame_witness:
  "GetCssPrintParams OS_OTHER (Some (unstyled_frame 1)) 0
       (example_params 2550 3300 1 1 0 0 300) = Inl CHECK_failed \<and>
   GetCssPrintParams OS_OTHER None 0 (example_params 2550 3300 1 1 0 0 300) =
     Inl CHECK_failed"
proof -
  have f: "GetCssPrintParams OS_OTHER (Some (unstyled_frame 1)) 0
       (example_params 2550 3300 1 1 0 0 300) = Inl CHECK_failed"
    by (simp add: GetCssPrintParams.simps unstyled_frame_def geometry_defs Let_def)
  from GetCssPrintParams_CHECK_only_without_frame[OF f] f show ?thesis by simp
qed

text \<open>
  The spec's scenario: a Letter page of 612 by 792 with a content area of 576 by 756
  and margins of 18, a frame without page CSS, and neither flag set: the reconciled
  parameters are the input, on every platform.
\<close>

theorem CalculatePrintParamsForCss_letter_unchanged:
  "CalculatePrintParamsForCss OS_MACOSX (Some (unstyled_frame 1)) 0 letter_72 False False =
     Inr (letter_72, None) \<and>
   CalculatePrintParamsForCss OS_OTHER (Some (unstyled_frame 1)) 0 letter_72 False False =
     Inr (letter_72, None)"
  by (simp add: CalculatePrintParamsForCss_def GetCssPrintParams.simps letter_72_def
        unstyled_frame_def geometry_defs Let_def)

text \<open>
  Valid parameters have a non-zero document cookie, a resolution above \<open>kMinDpi\<close> and
  non-negative margins, and the resolution \<open>GetDPI\<close> returns for them is at least 1.
\<close>

theorem valid_params_resolution:
  "PrintMsg_Print_Params_IsValid print_params \<Longrightarrow>
   document_cookie print_params \<noteq> 0 \<and> dpi print_params > kMinDpi \<and>
   margin_top print_params \<ge> 0 \<and> margin_left print_params \<ge> 0 \<and>
   GetDPI os print_params \<ge> 1"
  using GetDPI_valid[of print_params os]
  by (simp add: PrintMsg_Print_Params_IsValid_def)

theorem valid_params_resolution_witness:
  "PrintMsg_Print_Params_IsValid (example_params 2550 3300 2544 3294 3 3 300) \<and>
   GetDPI OS_OTHER (example_params 2550 3300 2544 3294 3 3 300) = 300 \<and>
   GetDPI OS_MACOSX (example_params 2550 3300 2544 3294 3 3 300) = 72"
proof -
  have v: "PrintMsg_Print_Params_IsValid (example_params 2550 3300 2544 3294 3 3 300)"
    by (simp add: geometry_defs)
  have "GetDPI OS_OTHER (example_params 2550 3300 2544 3294 3 3 300) = 300"
    "GetDPI OS_MACOSX (example_params 2550 3300 2544 3294 3 3 300) = 72"
    by (simp_all add: geometry_defs)
  then show ?thesis
    using valid_params_resolution[OF v, of OS_OTHER] v by simp
qed

text \<open>
  \<open>FitPrintParamsToPage\<close> is idempotent: fitting its own result again returns the
  factor 1 and changes nothing.
\<close>

theorem FitPrintParamsToPage_idempotent:
  "FitPrintParamsToPage page_params params_to_fit = Inr (factor, fitted) \<Longrightarrow>
   FitPrintParamsToPage page_params fitted = Inr (1, fitted)"
proof -
  assume a: "FitPrintParamsToPage page_params params_to_fit = Inr (factor, fitted)"
  then have "page_size fitted = page_size page_params"
    by (auto simp add: FitPrintParamsToPage_def Let_def split: if_splits)
  then show ?thesis by (simp add: FitPrintParamsToPage_def Let_def)
qed

theorem FitPrintParamsToPage_idempotent_witness:
  "FitPrintParamsToPage (example_params 612 792 576 756 18 18 72)
     ((example_params 1224 1584 1152 1512 36 36 72)
        \<lparr>margin_top := 18, margin_left := 18,
         content_size := gfx_Size 576 756, page_size := gfx_Size 612 792\<rparr>) =
   Inr (1, (example_params 1224 1584 1152 1512 36 36 72)
        \<lparr>margin_top := 18, margin_left := 18,
         content_size := gfx_Size 576 756, page_size := gfx_Size 612 792\<rparr>)"
proof -
  have "FitPrintParamsToPage (example_params 612 792 576 756 18 18 72)
       (example_params 1224 1584 1152 1512 36 36 72) =
     Inr (1 / 2, (example_params 1224 1584 1152 1512 36 36 72)
                   \<lparr>margin_top := 18, margin_left := 18,
                    content_size := gfx_Size 576 756, page_size := gfx_Size 612 792\<rparr>)"
    by (simp add: FitPrintParamsToPage_def geometry_defs Let_def)
  from FitPrintParamsToPage_idempotent[OF this] show ?thesis .
qed

end
